theory Spec2Isabelle
  imports Complex_Main "HOL-Library.AList"
begin

section \<open>Python values met by \<open>robotoff/products.py\<close>\<close>

text \<open>
  A raw catalog record is what \<open>json.loads\<close> gives for one line of the snapshot.
  Python's \<open>int\<close> and finite \<open>float\<close> values are one constructor \<open>JNum\<close> over the
  rationals: Python compares the two kinds exactly, and \<open>bool\<close> is a subtype of \<open>int\<close>.
  NaN and the infinities are not part of the model. A \<open>dict\<close> is an association list
  in insertion order; a well-formed one has distinct keys. A string is a sequence of
  code points below 256, the values of the type \<open>char\<close>.
\<close>

datatype json =
    JNull
  | JBool bool
  | JNum rat
  | JStr string
  | JList "json list"
  | JObj "(string \<times> json) list"

type_synonym JSONType = "(string \<times> json) list"

datatype error = ValueError | TypeError | AttributeError | OSError

text \<open>
  Iterating a Python iterable yields finitely many items and then either stops or raises:
  the pair holds the items yielded and the exception that ended the iteration, if any.
\<close>

type_synonym 'a pystream = "'a list \<times> error option"

text \<open>Truth value of an object (\<open>if x:\<close>, \<open>x or y\<close>, \<open>not x\<close>).\<close>

fun truthy :: "json \<Rightarrow> bool" where
  "truthy JNull = False"
| "truthy (JBool b) = b"
| "truthy (JNum n) = (n \<noteq> 0)"
| "truthy (JStr s) = (s \<noteq> [])"
| "truthy (JList xs) = (xs \<noteq> [])"
| "truthy (JObj kvs) = (kvs \<noteq> [])"

definition py_or :: "json \<Rightarrow> json \<Rightarrow> json" where
  "py_or a b = (if truthy a then a else b)"

text \<open>\<open>d.get(k, default)\<close>, \<open>d.get(k)\<close> and \<open>k in d\<close> on a dict.\<close>

definition get_default :: "JSONType \<Rightarrow> string \<Rightarrow> json \<Rightarrow> json" where
  "get_default d k dflt = (case map_of d k of None \<Rightarrow> dflt | Some v \<Rightarrow> v)"

definition get :: "JSONType \<Rightarrow> string \<Rightarrow> json" where
  "get d k = get_default d k JNull"

definition has_key :: "JSONType \<Rightarrow> string \<Rightarrow> bool" where
  "has_key d k = (map_of d k \<noteq> None)"

text \<open>
  \<open>str.isdigit()\<close>: at least one character, and every character a digit. Below code
  point 256 the digits of \<open>isdigit\<close> are the ten decimal digits and the superscripts
  two, three and one (U+00B2, U+00B3, U+00B9), which are digits but not decimal ones.
\<close>

definition isdigit :: "string \<Rightarrow> bool" where
  "isdigit s =
     (s \<noteq> [] \<and>
      list_all (\<lambda>c. c \<in> set ''0123456789'' \<or> c \<in> set [CHR 0xB2, CHR 0xB3, CHR 0xB9]) s)"

text \<open>
  The number a value stands for in an arithmetic comparison: \<open>int\<close>, \<open>float\<close> and
  \<open>bool\<close> have one, every other JSON value has none.
\<close>

fun num_of :: "json \<Rightarrow> rat option" where
  "num_of (JNum n) = Some n"
| "num_of (JBool b) = Some (if b then 1 else 0)"
| "num_of _ = None"

text \<open>\<open>len(x)\<close>: defined on strings, lists and dicts; a \<open>TypeError\<close> on numbers and \<open>None\<close>.\<close>

fun py_len :: "json \<Rightarrow> error + nat" where
  "py_len (JStr s) = Inr (length s)"
| "py_len (JList xs) = Inr (length xs)"
| "py_len (JObj kvs) = Inr (length kvs)"
| "py_len _ = Inl TypeError"

text \<open>\<open>s.strip(chars)\<close>: drops the leading and the trailing characters that are in \<open>chars\<close>.\<close>

definition strip :: "string \<Rightarrow> string \<Rightarrow> string" where
  "strip chars s =
     rev (dropWhile (\<lambda>c. c \<in> set chars) (rev (dropWhile (\<lambda>c. c \<in> set chars) s)))"

section \<open>Record projection: class \<open>Product\<close>\<close>

record Product =
  barcode :: json
  countries_tags :: json
  categories_tags :: json
  emb_codes_tags :: json
  labels_tags :: json
  quantity :: json
  expiration_date :: json
  brands_tags :: json
  stores_tags :: json
  unique_scans_n :: json
  images :: json
  image_ids :: json
  packagings :: json
  lang :: json
  ingredients_text :: json
  nutriments :: json

text \<open>
  \<open>list(key for key in x.keys() if key.isdigit())\<close>: \<open>x.keys()\<close> exists on a dict only,
  any other value raises \<open>AttributeError\<close>.
\<close>

fun digit_keys :: "json \<Rightarrow> error + json" where
  "digit_keys (JObj kvs) = Inr (JList (map JStr (filter isdigit (map fst kvs))))"
| "digit_keys _ = Inl AttributeError"

text \<open>\<open>Product.__init__\<close>.\<close>

definition Product_init :: "JSONType \<Rightarrow> error + Product" where
  "Product_init product =
     (let imgs = py_or (get product ''images'') (JObj []) in
      case (if has_key product ''image_ids'' then Inr (get product ''image_ids'')
            else digit_keys imgs) of
        Inl e \<Rightarrow> Inl e
      | Inr ids \<Rightarrow> Inr \<lparr>
          barcode = get product ''code'',
          countries_tags = py_or (get product ''countries_tags'') (JList []),
          categories_tags = py_or (get product ''categories_tags'') (JList []),
          emb_codes_tags = py_or (get product ''emb_codes_tags'') (JList []),
          labels_tags = py_or (get product ''labels_tags'') (JList []),
          quantity = py_or (get product ''quantity'') JNull,
          expiration_date = py_or (get product ''expiration_date'') JNull,
          brands_tags = py_or (get product ''brands_tags'') (JList []),
          stores_tags = py_or (get product ''stores_tags'') (JList []),
          unique_scans_n = py_or (get product ''unique_scans_n'') (JNum 0),
          images = imgs,
          image_ids = ids,
          packagings = py_or (get product ''packagings'') (JList []),
          lang = get product ''lang'',
          ingredients_text = get product ''ingredients_text'',
          nutriments = py_or (get product ''nutriments'') (JObj [])\<rparr>)"

text \<open>\<open>Product.get_fields()\<close>: the whitelist of minification.\<close>

definition get_fields :: "string set" where
  "get_fields = {''code'', ''countries_tags'', ''categories_tags'', ''emb_codes_tags'',
     ''labels_tags'', ''quantity'', ''expiration_date'', ''brands_tags'', ''stores_tags'',
     ''unique_scans_n'', ''images'', ''lang'', ''ingredients_text'', ''nutriments''}"

section \<open>Minification\<close>

text \<open>The dict comprehension of \<open>minify_product_dataset\<close>, for one item.\<close>

definition minify_item :: "JSONType \<Rightarrow> JSONType" where
  "minify_item item = filter (\<lambda>(field, v). field \<in> get_fields) item"

text \<open>
  \<open>minify_product_dataset\<close>: one line written per item read. An exception raised while the
  input is read leaves the function; the result is then the exception.
\<close>

definition minify_product_dataset :: "JSONType pystream \<Rightarrow> error + JSONType pystream" where
  "minify_product_dataset dataset =
     (case snd dataset of
        Some e \<Rightarrow> Inl e
      | None \<Rightarrow> Inr (map minify_item (fst dataset), None))"

section \<open>Dataset reader and query pipeline\<close>

text \<open>
  \<open>ProductDataset.stream\<close> hands the lines of the file, decoded, to a \<open>ProductStream\<close>.
  A file is modelled by what its iteration yields: the decoded items, then the exception of
  a decompression or decoding failure, if there is one. \<open>ProductDataset.count\<close> runs through
  the stream and counts.
\<close>

definition count :: "JSONType pystream \<Rightarrow> error + nat" where
  "count dataset = (case snd dataset of Some e \<Rightarrow> Inl e | None \<Rightarrow> Inr (length (fst dataset)))"

text \<open>
  A generator expression \<open>(x for x in it if cond(x))\<close>: the items of \<open>it\<close> for which the
  condition holds, up to the first item on which the condition raises.
\<close>

fun filter_items :: "('a \<Rightarrow> error + bool) \<Rightarrow> 'a list \<Rightarrow> error option \<Rightarrow> 'a pystream" where
  "filter_items cond [] e = ([], e)"
| "filter_items cond (x # xs) e =
     (case cond x of
        Inl err \<Rightarrow> ([], Some err)
      | Inr b \<Rightarrow> (let (ys, e') = filter_items cond xs e in (if b then x # ys else ys, e')))"

definition genexp :: "('a \<Rightarrow> error + bool) \<Rightarrow> 'a pystream \<Rightarrow> 'a pystream" where
  "genexp cond it = filter_items cond (fst it) (snd it)"

text \<open>\<open>ProductStream.collect\<close>: \<open>list(self)\<close>.\<close>

definition collect :: "'a pystream \<Rightarrow> error + 'a list" where
  "collect it = (case snd it of Some e \<Rightarrow> Inl e | None \<Rightarrow> Inr (fst it))"

text \<open>\<open>sub in s\<close> on two strings: \<open>sub\<close> occurs in \<open>s\<close> as a contiguous run.\<close>

fun str_contains :: "string \<Rightarrow> string \<Rightarrow> bool" where
  "str_contains sub [] = (sub = [])"
| "str_contains sub (c # cs) = (take (length sub) (c # cs) = sub \<or> str_contains sub cs)"

text \<open>
  \<open>tag in x\<close> for a string \<open>tag\<close>: element of a list, substring of a string, key of a
  dict; a \<open>TypeError\<close> on a value that is no container.
\<close>

fun str_in :: "string \<Rightarrow> json \<Rightarrow> error + bool" where
  "str_in tag (JList xs) = Inr (JStr tag \<in> set xs)"
| "str_in tag (JStr s) = Inr (str_contains tag s)"
| "str_in tag (JObj kvs) = Inr (tag \<in> fst ` set kvs)"
| "str_in tag _ = Inl TypeError"

definition filter_by_country_tag :: "string \<Rightarrow> JSONType pystream \<Rightarrow> JSONType pystream" where
  "filter_by_country_tag country_tag it =
     genexp (\<lambda>product. str_in country_tag (py_or (get product ''countries_tags'') (JList []))) it"

definition filter_by_state_tag :: "string \<Rightarrow> JSONType pystream \<Rightarrow> JSONType pystream" where
  "filter_by_state_tag state_tag it =
     genexp (\<lambda>product. str_in state_tag (py_or (get product ''states_tags'') (JList []))) it"

definition filter_text_field :: "string \<Rightarrow> string \<Rightarrow> JSONType pystream \<Rightarrow> JSONType pystream" where
  "filter_text_field field v it =
     genexp (\<lambda>product. Inr (get_default product field (JStr []) = JStr v)) it"

datatype ComparisonOperator = eq | gt | geq | lt | leq

definition get_from_string :: "string \<Rightarrow> error + ComparisonOperator" where
  "get_from_string v =
     (if v = ''eq'' then Inr eq
      else if v = ''gt'' then Inr gt
      else if v = ''geq'' then Inr geq
      else if v = ''lt'' then Inr lt
      else if v = ''leq'' then Inr leq
      else Inl ValueError)"

text \<open>
  The comparisons in the \<open>try\<close> block of \<open>apply_comparison_operator\<close>, with the reference
  value a number (\<open>ref: Union[int, float]\<close>). \<open>==\<close> is defined on every pair of values;
  an ordering between a number and a value that is none raises \<open>TypeError\<close>.
\<close>

fun compare :: "ComparisonOperator \<Rightarrow> json \<Rightarrow> rat \<Rightarrow> error + bool" where
  "compare eq value_1 value_2 = Inr (num_of value_1 = Some value_2)"
| "compare gt value_1 value_2 =
     (case num_of value_1 of None \<Rightarrow> Inl TypeError | Some n \<Rightarrow> Inr (n > value_2))"
| "compare geq value_1 value_2 =
     (case num_of value_1 of None \<Rightarrow> Inl TypeError | Some n \<Rightarrow> Inr (n \<ge> value_2))"
| "compare lt value_1 value_2 =
     (case num_of value_1 of None \<Rightarrow> Inl TypeError | Some n \<Rightarrow> Inr (n < value_2))"
| "compare leq value_1 value_2 =
     (case num_of value_1 of None \<Rightarrow> Inl TypeError | Some n \<Rightarrow> Inr (n \<le> value_2))"

text \<open>\<open>apply_comparison_operator\<close>: \<open>except TypeError: return False\<close>.\<close>

definition apply_comparison_operator ::
  "json \<Rightarrow> rat \<Rightarrow> ComparisonOperator \<Rightarrow> error + bool" where
  "apply_comparison_operator value_1 value_2 comparison_operator =
     (case compare comparison_operator value_1 value_2 of
        Inl e \<Rightarrow> (if e = TypeError then Inr False else Inl e)
      | Inr b \<Rightarrow> Inr b)"

text \<open>\<open>filter_number_field\<close>: the operator name is looked up when the method is called.\<close>

definition filter_number_field ::
  "string \<Rightarrow> rat \<Rightarrow> rat \<Rightarrow> string \<Rightarrow> JSONType pystream \<Rightarrow> error + JSONType pystream" where
  "filter_number_field field ref dflt operator it =
     (case get_from_string operator of
        Inl e \<Rightarrow> Inl e
      | Inr operator' \<Rightarrow>
          Inr (genexp (\<lambda>product.
                 apply_comparison_operator (get_default product field (JNum dflt)) ref operator') it))"

definition filter_nonempty_text_field :: "string \<Rightarrow> JSONType pystream \<Rightarrow> JSONType pystream" where
  "filter_nonempty_text_field field it =
     genexp (\<lambda>product. Inr (py_or (get product field) (JStr []) \<noteq> JStr [])) it"

definition filter_empty_text_field :: "string \<Rightarrow> JSONType pystream \<Rightarrow> JSONType pystream" where
  "filter_empty_text_field field it =
     genexp (\<lambda>product. Inr (\<not> py_or (get product field) (JStr []) \<noteq> JStr [])) it"

definition filter_nonempty_tag_field :: "string \<Rightarrow> JSONType pystream \<Rightarrow> JSONType pystream" where
  "filter_nonempty_tag_field field it =
     genexp (\<lambda>product. Inr (truthy (py_or (get product field) (JList [])))) it"

definition filter_empty_tag_field :: "string \<Rightarrow> JSONType pystream \<Rightarrow> JSONType pystream" where
  "filter_empty_tag_field field it =
     genexp (\<lambda>product. Inr (\<not> truthy (py_or (get product field) (JList [])))) it"

text \<open>\<open>x >= t\<close> and \<open>x <= t\<close> for a field value \<open>x\<close> and a timestamp \<open>t\<close>.\<close>

definition py_ge :: "json \<Rightarrow> rat \<Rightarrow> error + bool" where
  "py_ge x t = (case num_of x of None \<Rightarrow> Inl TypeError | Some n \<Rightarrow> Inr (n \<ge> t))"

definition py_le :: "json \<Rightarrow> rat \<Rightarrow> error + bool" where
  "py_le x t = (case num_of x of None \<Rightarrow> Inl TypeError | Some n \<Rightarrow> Inr (n \<le> t))"

text \<open>
  \<open>filter_by_modified_datetime\<close>. A \<open>datetime\<close> is given by its \<open>timestamp()\<close>; a
  \<open>datetime\<close> object is always true, so \<open>if from_t:\<close> asks whether the bound was given.
  The branches are \<open>if from_t: ... elif to_t: ...\<close>.
\<close>

definition filter_by_modified_datetime ::
  "rat option \<Rightarrow> rat option \<Rightarrow> JSONType pystream \<Rightarrow> error + JSONType pystream" where
  "filter_by_modified_datetime from_t to_t it =
     (if from_t = None \<and> to_t = None then Inl ValueError
      else case from_t of
        Some from_timestamp \<Rightarrow>
          Inr (genexp (\<lambda>product.
                 if has_key product ''last_modified_t''
                 then py_ge (get product ''last_modified_t'') from_timestamp
                 else Inr False) it)
      | None \<Rightarrow>
          (case to_t of
             Some to_timestamp \<Rightarrow>
               Inr (genexp (\<lambda>product.
                      if has_key product ''last_modified_t''
                      then py_le (get product ''last_modified_t'') to_timestamp
                      else Inr False) it)
           | None \<Rightarrow> Inl ValueError))"

text \<open>
  The projection step of \<open>iter_product\<close>: \<open>{k: item[k] for k in projection if k in item}\<close>,
  then \<open>image_ids\<close> computed from the item's \<open>images\<close> when the projection asks for it.
  \<open>if projection:\<close> holds for a list that is given and not empty.
\<close>

definition project_item :: "string list option \<Rightarrow> JSONType \<Rightarrow> error + JSONType" where
  "project_item projection item =
     (case projection of
        None \<Rightarrow> Inr item
      | Some ks \<Rightarrow>
          if ks = [] then Inr item
          else
            (let projected_item =
                   foldl (\<lambda>d k. if has_key item k then AList.update k (get item k) d else d) [] ks
             in if ''image_ids'' \<in> set ks
                then (case digit_keys (py_or (get item ''images'') (JObj [])) of
                        Inl e \<Rightarrow> Inl e
                      | Inr ids \<Rightarrow> Inr (AList.update ''image_ids'' ids projected_item))
                else Inr projected_item))"

text \<open>A generator that yields \<open>f x\<close> for each item, up to the first item on which \<open>f\<close> raises.\<close>

fun map_items :: "('a \<Rightarrow> error + 'b) \<Rightarrow> 'a list \<Rightarrow> error option \<Rightarrow> 'b pystream" where
  "map_items f [] e = ([], e)"
| "map_items f (x # xs) e =
     (case f x of
        Inl err \<Rightarrow> ([], Some err)
      | Inr y \<Rightarrow> (let (ys, e') = map_items f xs e in (y # ys, e')))"

definition iter_product :: "string list option \<Rightarrow> JSONType pystream \<Rightarrow> Product pystream" where
  "iter_product projection it =
     map_items (\<lambda>item. case project_item projection item of
                          Inl e \<Rightarrow> Inl e
                        | Inr projected_item \<Rightarrow> Product_init projected_item)
       (fst it) (snd it)"

text \<open>
  The filter methods of \<open>ProductStream\<close> as calls: a call names the method and carries
  its arguments, and \<open>call\<close> is the method applied to a stream. \<open>filter_number_field\<close>
  and \<open>filter_by_modified_datetime\<close> can raise when they are called; the other methods
  return the new stream.
\<close>

datatype filter_call =
    By_country_tag string
  | By_state_tag string
  | Text_field string string
  | Number_field string rat rat string
  | Nonempty_text_field string
  | Empty_text_field string
  | Nonempty_tag_field string
  | Empty_tag_field string
  | By_modified_datetime "rat option" "rat option"

fun call :: "filter_call \<Rightarrow> JSONType pystream \<Rightarrow> error + JSONType pystream" where
  "call (By_country_tag country_tag) it = Inr (filter_by_country_tag country_tag it)"
| "call (By_state_tag state_tag) it = Inr (filter_by_state_tag state_tag it)"
| "call (Text_field field v) it = Inr (filter_text_field field v it)"
| "call (Number_field field ref dflt operator) it = filter_number_field field ref dflt operator it"
| "call (Nonempty_text_field field) it = Inr (filter_nonempty_text_field field it)"
| "call (Empty_text_field field) it = Inr (filter_empty_text_field field it)"
| "call (Nonempty_tag_field field) it = Inr (filter_nonempty_tag_field field it)"
| "call (Empty_tag_field field) it = Inr (filter_empty_tag_field field it)"
| "call (By_modified_datetime from_t to_t) it = filter_by_modified_datetime from_t to_t it"

text \<open>\<open>stream.filter_a(...).collect()\<close> and \<open>stream.filter_a(...).filter_b(...).collect()\<close>.\<close>

definition call_collect :: "filter_call \<Rightarrow> JSONType pystream \<Rightarrow> error + JSONType list" where
  "call_collect a it = (case call a it of Inl e \<Rightarrow> Inl e | Inr it' \<Rightarrow> collect it')"

definition call_call_collect ::
  "filter_call \<Rightarrow> filter_call \<Rightarrow> JSONType pystream \<Rightarrow> error + JSONType list" where
  "call_call_collect a b it =
     (case call a it of Inl e \<Rightarrow> Inl e | Inr it' \<Rightarrow> call_collect b it')"

section \<open>Snapshot store: \<open>MemoryProductStore\<close>\<close>

text \<open>
  The key under which a value is filed in a \<open>dict\<close>: lists and dicts are unhashable
  (\<open>TypeError\<close>), and \<open>True\<close> is the same key as \<open>1\<close>.
\<close>

fun dict_key :: "json \<Rightarrow> error + json" where
  "dict_key (JList xs) = Inl TypeError"
| "dict_key (JObj kvs) = Inl TypeError"
| "dict_key (JBool b) = Inr (JNum (if b then 1 else 0))"
| "dict_key v = Inr v"

type_synonym store = "(json \<times> Product) list"

text \<open>The loop of \<open>load_from_path\<close>: \<open>if product.barcode: store[product.barcode] = product\<close>.\<close>

fun store_products :: "Product list \<Rightarrow> store \<Rightarrow> error + store" where
  "store_products [] st = Inr st"
| "store_products (product # ps) st =
     (if truthy (barcode product)
      then (case dict_key (barcode product) of
              Inl e \<Rightarrow> Inl e
            | Inr k \<Rightarrow> store_products ps (AList.update k product st))
      else store_products ps st)"

definition load_from_path :: "JSONType pystream \<Rightarrow> string list option \<Rightarrow> error + store" where
  "load_from_path path projection =
     (if projection \<noteq> None \<and> ''code'' \<notin> set (the projection) then Inl ValueError
      else
        (let products = iter_product projection path in
         case store_products (fst products) [] of
           Inl e \<Rightarrow> Inl e
         | Inr st \<Rightarrow> (case snd products of Some e \<Rightarrow> Inl e | None \<Rightarrow> Inr st)))"

text \<open>\<open>MemoryProductStore.__len__\<close> and \<open>__getitem__\<close>.\<close>

definition MemoryProductStore_len :: "store \<Rightarrow> nat" where
  "MemoryProductStore_len st = length st"

definition MemoryProductStore_getitem :: "store \<Rightarrow> json \<Rightarrow> error + Product option" where
  "MemoryProductStore_getitem st item =
     (case dict_key item of Inl e \<Rightarrow> Inl e | Inr k \<Rightarrow> Inr (map_of st k))"

section \<open>Live store: \<open>DBProductStore\<close>\<close>

text \<open>
  The remote collection: its documents, each with an \<open>_id\<close>, and the number of requests
  sent to the server so far. \<open>estimated_document_count\<close> answers with an \<open>int\<close>;
  \<open>find_one\<close> answers with the first document that matches, or \<open>None\<close>.
\<close>

record collection =
  documents :: "JSONType list"
  requests :: nat

definition estimated_document_count :: "collection \<Rightarrow> json \<times> collection" where
  "estimated_document_count c =
     (JNum (of_nat (length (documents c))), c\<lparr>requests := requests c + 1\<rparr>)"

definition find_one ::
  "string \<Rightarrow> string list option \<Rightarrow> collection \<Rightarrow> JSONType option \<times> collection" where
  "find_one ident projection c =
     (map_option
        (\<lambda>d. case projection of
                None \<Rightarrow> d
              | Some ks \<Rightarrow> filter (\<lambda>(k, v). k = ''_id'' \<or> k \<in> set ks) d)
        (find (\<lambda>d. map_of d ''_id'' = Some (JStr ident)) (documents c)),
      c\<lparr>requests := requests c + 1\<rparr>)"

text \<open>\<open>DBProductStore.__len__\<close>: \<open>len(self.collection.estimated_document_count())\<close>.\<close>

definition DBProductStore_len :: "collection \<Rightarrow> (error + nat) \<times> collection" where
  "DBProductStore_len c =
     (let (n, c') = estimated_document_count c in (py_len n, c'))"

text \<open>
  \<open>DBProductStore.get_product\<close>; the first argument is \<open>settings.ENABLE_MONGODB_ACCESS\<close>,
  the second the barcode of the product identifier.
\<close>

definition get_product ::
  "bool \<Rightarrow> string \<Rightarrow> string list option \<Rightarrow> collection \<Rightarrow> JSONType option \<times> collection" where
  "get_product ENABLE_MONGODB_ACCESS product_id projection c =
     (if \<not> ENABLE_MONGODB_ACCESS then (None, c)
      else find_one product_id projection c)"

text \<open>\<open>DBProductStore.__getitem__\<close>: an empty dict is false, as \<open>None\<close> is.\<close>

definition DBProductStore_getitem ::
  "bool \<Rightarrow> string \<Rightarrow> collection \<Rightarrow> (error + Product option) \<times> collection" where
  "DBProductStore_getitem ENABLE_MONGODB_ACCESS product_id c =
     (let (product, c') = get_product ENABLE_MONGODB_ACCESS product_id None c in
      case product of
        None \<Rightarrow> (Inr None, c')
      | Some d \<Rightarrow>
          if d = [] then (Inr None, c')
          else (case Product_init d of Inl e \<Rightarrow> (Inl e, c') | Inr p \<Rightarrow> (Inr (Some p), c')))"

section \<open>Dataset lifecycle\<close>

text \<open>
  The files the refresh cycle installs: the snapshot, the minified snapshot and the
  ETag file, each absent or with its content. The response of the download request
  carries an \<open>ETag\<close> header, or none, and the body.
\<close>

record files =
  JSONL_DATASET_PATH :: "JSONType pystream option"
  JSONL_MIN_DATASET_PATH :: "JSONType pystream option"
  JSONL_DATASET_ETAG_PATH :: "string option"

record response =
  ETag :: "string option"
  raw :: "JSONType pystream"

text \<open>\<open>download_dataset\<close>: the ETag of the transfer, quotes stripped, and the file written.\<close>

definition download_dataset :: "response \<Rightarrow> string \<times> JSONType pystream" where
  "download_dataset r =
     (strip [CHR 0x27, CHR 0x22] (case ETag r of None \<Rightarrow> [] | Some t \<Rightarrow> t), raw r)"

text \<open>
  \<open>is_valid_dataset\<close>; the first argument is \<open>settings.DATASET_CHECK_MIN_PRODUCT_COUNT\<close>.
\<close>

definition is_valid_dataset :: "int \<Rightarrow> JSONType pystream \<Rightarrow> bool" where
  "is_valid_dataset DATASET_CHECK_MIN_PRODUCT_COUNT dataset_path =
     (case count dataset_path of
        Inl e \<Rightarrow> False
      | Inr n \<Rightarrow> \<not> int n < DATASET_CHECK_MIN_PRODUCT_COUNT)"

text \<open>
  \<open>fetch_dataset\<close>, from the response of the download request on: validation,
  minification in the temporary directory, then the two copies and the ETag.
\<close>

definition fetch_dataset ::
  "bool \<Rightarrow> int \<Rightarrow> response \<Rightarrow> files \<Rightarrow> (error + bool) \<times> files" where
  "fetch_dataset minify DATASET_CHECK_MIN_PRODUCT_COUNT r fs =
     (let (etag, output_path) = download_dataset r in
      if \<not> is_valid_dataset DATASET_CHECK_MIN_PRODUCT_COUNT output_path then (Inr False, fs)
      else if minify then
        (case minify_product_dataset output_path of
           Inl e \<Rightarrow> (Inl e, fs)
         | Inr minify_path \<Rightarrow>
             (Inr True, fs\<lparr>JSONL_DATASET_PATH := Some output_path,
                           JSONL_MIN_DATASET_PATH := Some minify_path,
                           JSONL_DATASET_ETAG_PATH := Some etag\<rparr>))
      else
        (Inr True, fs\<lparr>JSONL_DATASET_PATH := Some output_path,
                      JSONL_DATASET_ETAG_PATH := Some etag\<rparr>))"

section \<open>Properties\<close>

lemma minify_item_keys: "fst ` set (minify_item item) \<subseteq> get_fields"
  by (auto simp: minify_item_def)

text \<open>
  Claim C3. Minifying a snapshot that reads end to end writes exactly one record per
  input record, in the same order, and every key of every written record is in the
  whitelist \<open>Product.get_fields()\<close>.
\<close>

theorem minify_preserves_count_and_whitelist:
  "snd dataset = None \<Longrightarrow>
   (\<exists>out. minify_product_dataset dataset = Inr (out, None)
      \<and> length out = length (fst dataset)
      \<and> (\<forall>item \<in> set out. fst ` set item \<subseteq> get_fields))"
  using minify_item_keys by (auto simp: minify_product_dataset_def)

theorem minify_preserves_count_and_whitelist_witness:
  "snd ([[(''code'', JStr ''1''), (''foo'', JNum 3)], [(''bar'', JNull)]], None :: error option) = None
   \<and> minify_product_dataset
        ([[(''code'', JStr ''1''), (''foo'', JNum 3)], [(''bar'', JNull)]], None)
      = Inr ([[(''code'', JStr ''1'')], []], None)"
  using minify_preserves_count_and_whitelist
    [of "([[(''code'', JStr ''1''), (''foo'', JNum 3)], [(''bar'', JNull)]], None)"]
  by (simp add: minify_product_dataset_def minify_item_def get_fields_def)

subsection \<open>Generator expressions with conditions that do not raise\<close>

lemma filter_items_total:
  "\<forall>x\<in>set xs. \<exists>b. cond x = Inr b \<Longrightarrow>
   filter_items cond xs e = (filter (\<lambda>x. cond x = Inr True) xs, e)"
  by (induction xs) auto

lemma genexp_total:
  "\<forall>x\<in>set (fst it). \<exists>b. cond x = Inr b \<Longrightarrow>
   genexp cond it = (filter (\<lambda>x. cond x = Inr True) (fst it), snd it)"
  by (simp add: genexp_def filter_items_total)

subsection \<open>Modification-time filter\<close>

lemma filter_by_modified_datetime_ignores_to_t:
  "filter_by_modified_datetime (Some from_timestamp) to_t it
   = filter_by_modified_datetime (Some from_timestamp) None it"
  by (simp add: filter_by_modified_datetime_def)

text \<open>
  Claim C1. With both bounds given, \<open>filter_by_modified_datetime\<close> takes the \<open>if from_t\<close>
  branch and never reads \<open>to_t\<close>: with \<open>from_t\<close> at timestamp 10 and \<open>to_t\<close> at
  timestamp 20, a record last modified at 30 is kept.
\<close>

theorem filter_by_modified_datetime_both_bounds:
  "filter_by_modified_datetime (Some 10) (Some 20)
     ([[(''code'', JStr ''1''), (''last_modified_t'', JNum 30)]], None)
   = Inr ([[(''code'', JStr ''1''), (''last_modified_t'', JNum 30)]], None)"
  by (simp add: filter_by_modified_datetime_def genexp_def has_key_def get_def get_default_def
        py_ge_def)

subsection \<open>Record projection\<close>

lemma map_of_projected:
  "map_of (foldl (\<lambda>d k. if has_key item k then AList.update k (get item k) d else d) d0 ks) k
   = (if k \<in> set ks \<and> has_key item k then map_of item k else map_of d0 k)"
  by (induction ks arbitrary: d0)
     (auto simp: update_conv' has_key_def get_def get_default_def)

lemma get_projected:
  "get (foldl (\<lambda>d k. if has_key item k then AList.update k (get item k) d else d) [] ks) k
   = (if k \<in> set ks then get item k else JNull)"
  using map_of_projected [of item "[]" ks k]
  by (auto simp: get_def get_default_def has_key_def split: option.splits)

lemma has_key_projected:
  "has_key (foldl (\<lambda>d k. if has_key item k then AList.update k (get item k) d else d) [] ks) k
   = (k \<in> set ks \<and> has_key item k)"
  using map_of_projected [of item "[]" ks k]
  by (auto simp: has_key_def split: option.splits)

lemma Product_init_derived:
  assumes "\<not> has_key d ''image_ids''"
  shows "(\<exists>p kvs. Product_init d = Inr p \<and> images p = JObj kvs
            \<and> image_ids p = JList (map JStr (filter isdigit (map fst kvs))))
         \<or> (Product_init d = Inl AttributeError
            \<and> truthy (get d ''images'') \<and> (\<forall>kvs. get d ''images'' \<noteq> JObj kvs))"
proof (cases "py_or (get d ''images'') (JObj [])")
  case (JObj kvs)
  with assms show ?thesis by (simp add: Product_init_def)
qed (use assms in \<open>auto simp: Product_init_def py_or_def split: if_splits\<close>)

lemma Product_init_precomputed:
  assumes "has_key d ''image_ids''"
  shows "\<exists>p. Product_init d = Inr p \<and> image_ids p = get d ''image_ids''
            \<and> images p = py_or (get d ''images'') (JObj [])"
  using assms by (simp add: Product_init_def)

lemma iter_product_single:
  "iter_product projection ([r], None)
   = (case project_item projection r of
        Inl e \<Rightarrow> ([], Some e)
      | Inr d \<Rightarrow> (case Product_init d of Inl e \<Rightarrow> ([], Some e) | Inr p \<Rightarrow> ([p], None)))"
  by (simp add: iter_product_def split: sum.splits)

text \<open>
  Claim C2, as stated, fails in three ways. Without a projection, a raw record with its own
  \<open>image_ids\<close> key keeps that value, whatever the keys of \<open>images\<close> are. With a
  projection that lists \<open>image_ids\<close> but not \<open>images\<close>, the ids are those of the raw
  record's \<open>images\<close> while the \<open>images\<close> of the \<open>Product\<close> is empty. And a key made
  of the superscript two, which is no decimal digit, passes \<open>isdigit\<close> and is listed.
\<close>

theorem image_ids_counterexample:
  "map (\<lambda>p. (image_ids p, images p))
     (fst (iter_product None
             ([[(''code'', JStr ''1''),
                (''images'', JObj [(''1'', JObj []), (''front_fr'', JObj [])]),
                (''image_ids'', JList [JStr ''7''])]], None)))
   = [(JList [JStr ''7''], JObj [(''1'', JObj []), (''front_fr'', JObj [])])]
   \<and> map (\<lambda>p. (image_ids p, images p))
     (fst (iter_product (Some [''code'', ''image_ids''])
             ([[(''code'', JStr ''1''),
                (''images'', JObj [(''1'', JObj []), (''front_fr'', JObj [])])]], None)))
   = [(JList [JStr ''1''], JObj [])]
   \<and> map (\<lambda>p. (image_ids p, images p))
     (fst (iter_product None
             ([[(''code'', JStr ''1''),
                (''images'', JObj [([CHR 0xB2], JObj [])])]], None)))
   = [(JList [JStr [CHR 0xB2]], JObj [([CHR 0xB2], JObj [])])]
   \<and> CHR 0xB2 \<notin> set ''0123456789''"
  by code_simp

text \<open>
  Claim C2, amended. Let a raw record be projected by \<open>iter_product\<close>, where either no
  projection is given (none, or an empty one) and the record has no \<open>image_ids\<close> key of its
  own, or a projection is given that lists \<open>images\<close> whenever it lists \<open>image_ids\<close>. Then
  the \<open>Product\<close> is built, its \<open>images\<close> is a dict and its \<open>image_ids\<close> are exactly the
  keys of that dict for which \<open>str.isdigit()\<close> holds, in the order of the dict; the only
  other outcome is an \<open>AttributeError\<close>, when the record's \<open>images\<close> is a true value that
  is not a dict.
\<close>

theorem image_ids_of_projection:
  assumes none: "projection = None \<or> projection = Some [] \<Longrightarrow> \<not> has_key r ''image_ids''"
      and some: "\<forall>ks. projection = Some ks \<longrightarrow> ''image_ids'' \<in> set ks \<longrightarrow> ''images'' \<in> set ks"
  shows "(\<exists>p kvs. iter_product projection ([r], None) = ([p], None)
            \<and> images p = JObj kvs
            \<and> image_ids p = JList (map JStr (filter isdigit (map fst kvs))))
         \<or> (iter_product projection ([r], None) = ([], Some AttributeError)
            \<and> truthy (get r ''images'') \<and> (\<forall>kvs. get r ''images'' \<noteq> JObj kvs))"
proof (cases "projection = None \<or> projection = Some []")
  case True
  then have "project_item projection r = Inr r"
    by (auto simp: project_item_def)
  with Product_init_derived [OF none [OF True]] show ?thesis
    by (auto simp: iter_product_single)
next
  case False
  then obtain ks where ks: "projection = Some ks" "ks \<noteq> []" by auto
  let ?d = "foldl (\<lambda>d k. if has_key r k then AList.update k (get r k) d else d) [] ks"
  show ?thesis
  proof (cases "''image_ids'' \<in> set ks")
    case no_ids: False
    then have pr: "project_item projection r = Inr ?d"
      using ks by (simp add: project_item_def)
    have nk: "\<not> has_key ?d ''image_ids''"
      using no_ids by (simp add: has_key_projected)
    have g: "get ?d ''images'' = (if ''images'' \<in> set ks then get r ''images'' else JNull)"
      by (rule get_projected)
    from Product_init_derived [OF nk] show ?thesis
      unfolding iter_product_single pr g by (auto split: if_splits)
  next
    case ids: True
    with some ks have im: "''images'' \<in> set ks" by simp
    show ?thesis
    proof (cases "py_or (get r ''images'') (JObj [])")
      case (JObj kvs)
      let ?ids = "JList (map JStr (filter isdigit (map fst kvs)))"
      let ?d' = "AList.update ''image_ids'' ?ids ?d"
      have pr: "project_item projection r = Inr ?d'"
        using ks ids JObj by (simp add: project_item_def)
      have hk: "has_key ?d' ''image_ids''"
        by (simp add: has_key_def update_conv')
      have gi: "get ?d' ''image_ids'' = ?ids"
        by (simp add: get_def get_default_def update_conv')
      have "get ?d' ''images'' = get ?d ''images''"
        by (simp add: get_def get_default_def update_conv')
      with im have gm: "get ?d' ''images'' = get r ''images''"
        by (simp add: get_projected)
      from Product_init_precomputed [OF hk] JObj show ?thesis
        unfolding iter_product_single pr gi gm by auto
    qed (use ks ids in \<open>auto simp: iter_product_single project_item_def py_or_def
                            split: if_splits\<close>)
  qed
qed

theorem image_ids_of_projection_witness:
  "map (\<lambda>p. (image_ids p, images p))
     (fst (iter_product (Some [''code'', ''images'', ''image_ids''])
             ([[(''code'', JStr ''1''),
                (''images'', JObj [(''1'', JObj []), (''front_fr'', JObj []), (''22'', JObj [])]),
                (''image_ids'', JList [JStr ''7''])]], None)))
   = [(JList [JStr ''1'', JStr ''22''],
       JObj [(''1'', JObj []), (''front_fr'', JObj []), (''22'', JObj [])])]"
proof -
  have ev: "map (\<lambda>p. (image_ids p, images p))
     (fst (iter_product (Some [''code'', ''images'', ''image_ids''])
             ([[(''code'', JStr ''1''),
                (''images'', JObj [(''1'', JObj []), (''front_fr'', JObj []), (''22'', JObj [])]),
                (''image_ids'', JList [JStr ''7''])]], None)))
   = [(JList [JStr ''1'', JStr ''22''],
       JObj [(''1'', JObj []), (''front_fr'', JObj []), (''22'', JObj [])])]"
    by code_simp
  show ?thesis
    using image_ids_of_projection
      [of "Some [''code'', ''images'', ''image_ids'']"
          "[(''code'', JStr ''1''),
            (''images'', JObj [(''1'', JObj []), (''front_fr'', JObj []), (''22'', JObj [])]),
            (''image_ids'', JList [JStr ''7''])]"]
    by (simp add: ev)
qed

subsection \<open>Refresh cycle\<close>

text \<open>
  Claim C4. When the downloaded file does not read end to end, or holds fewer records than
  the configured minimum, validation fails and \<open>fetch_dataset\<close> returns \<open>False\<close> without
  raising; the installed snapshot, the minified snapshot and the ETag file are as before.
\<close>

theorem fetch_dataset_invalid_no_install:
  assumes "snd (raw r) \<noteq> None \<or> int (length (fst (raw r))) < DATASET_CHECK_MIN_PRODUCT_COUNT"
  shows "\<not> is_valid_dataset DATASET_CHECK_MIN_PRODUCT_COUNT (raw r)
         \<and> fetch_dataset minify DATASET_CHECK_MIN_PRODUCT_COUNT r fs = (Inr False, fs)"
proof -
  have "\<not> is_valid_dataset DATASET_CHECK_MIN_PRODUCT_COUNT (raw r)"
    using assms by (auto simp: is_valid_dataset_def count_def split: option.splits)
  then show ?thesis
    by (simp add: fetch_dataset_def download_dataset_def)
qed

theorem fetch_dataset_invalid_no_install_witness:
  "snd (raw \<lparr>ETag = Some ''abc'', raw = ([[(''code'', JStr ''1'')]], Some OSError)\<rparr>)
     = Some OSError
   \<and> fetch_dataset True 1 \<lparr>ETag = Some ''abc'', raw = ([[(''code'', JStr ''1'')]], Some OSError)\<rparr>
       \<lparr>JSONL_DATASET_PATH = Some ([[(''code'', JStr ''0'')]], None),
        JSONL_MIN_DATASET_PATH = Some ([[(''code'', JStr ''0'')]], None),
        JSONL_DATASET_ETAG_PATH = Some ''old''\<rparr>
     = (Inr False,
        \<lparr>JSONL_DATASET_PATH = Some ([[(''code'', JStr ''0'')]], None),
         JSONL_MIN_DATASET_PATH = Some ([[(''code'', JStr ''0'')]], None),
         JSONL_DATASET_ETAG_PATH = Some ''old''\<rparr>)"
  using fetch_dataset_invalid_no_install
    [of "\<lparr>ETag = Some ''abc'', raw = ([[(''code'', JStr ''1'')]], Some OSError)\<rparr>" 1 True
        "\<lparr>JSONL_DATASET_PATH = Some ([[(''code'', JStr ''0'')]], None),
          JSONL_MIN_DATASET_PATH = Some ([[(''code'', JStr ''0'')]], None),
          JSONL_DATASET_ETAG_PATH = Some ''old''\<rparr>"]
  by simp

subsection \<open>Live store\<close>

lemma DBProductStore_len_raises: "fst (DBProductStore_len c) = Inl TypeError"
  by (simp add: DBProductStore_len_def estimated_document_count_def)

text \<open>
  Claim C6. \<open>DBProductStore.__len__\<close> applies \<open>len\<close> to the integer that
  \<open>estimated_document_count\<close> answers with: on a collection of three documents it raises
  \<open>TypeError\<close>, after one request to the server, and returns no size.
\<close>

theorem DBProductStore_len_three_documents:
  "DBProductStore_len
     \<lparr>documents = [[(''_id'', JStr ''1'')], [(''_id'', JStr ''2'')], [(''_id'', JStr ''3'')]],
      requests = 0\<rparr>
   = (Inl TypeError,
      \<lparr>documents = [[(''_id'', JStr ''1'')], [(''_id'', JStr ''2'')], [(''_id'', JStr ''3'')]],
       requests = 1\<rparr>)"
  by (simp add: DBProductStore_len_def estimated_document_count_def)

text \<open>
  Claim C7. With remote access disabled, \<open>get_product\<close> and \<open>__getitem__\<close> return
  \<open>None\<close> and send no request (the collection, request counter included, is unchanged).
  With remote access enabled, an identifier that no document of the collection has as
  its \<open>_id\<close> gives \<open>None\<close>, not an exception.
\<close>

theorem live_lookup_absent:
  "(get_product False product_id projection c = (None, c)
     \<and> DBProductStore_getitem False product_id c = (Inr None, c))
   \<and> ((\<forall>d\<in>set (documents c). map_of d ''_id'' \<noteq> Some (JStr product_id))
        \<longrightarrow> fst (get_product True product_id projection c) = None
            \<and> fst (DBProductStore_getitem True product_id c) = Inr None)"
proof -
  have "find (\<lambda>d. map_of d ''_id'' = Some (JStr product_id)) (documents c) = None"
    if "\<forall>d\<in>set (documents c). map_of d ''_id'' \<noteq> Some (JStr product_id)"
    using that by (simp add: find_None_iff)
  then show ?thesis
    by (simp add: get_product_def DBProductStore_getitem_def find_one_def)
qed

theorem live_lookup_absent_witness:
  "find (\<lambda>d. map_of d ''_id'' = Some (JStr ''2''))
     (documents \<lparr>documents = [[(''_id'', JStr ''1''), (''code'', JStr ''1'')]], requests = 0\<rparr>)
     = None
   \<and> DBProductStore_getitem True ''2''
        \<lparr>documents = [[(''_id'', JStr ''1''), (''code'', JStr ''1'')]], requests = 0\<rparr>
      = (Inr None, \<lparr>documents = [[(''_id'', JStr ''1''), (''code'', JStr ''1'')]], requests = 1\<rparr>)
   \<and> DBProductStore_getitem False ''1''
        \<lparr>documents = [[(''_id'', JStr ''1''), (''code'', JStr ''1'')]], requests = 0\<rparr>
      = (Inr None, \<lparr>documents = [[(''_id'', JStr ''1''), (''code'', JStr ''1'')]], requests = 0\<rparr>)"
  using live_lookup_absent
    [of "''2''" None "\<lparr>documents = [[(''_id'', JStr ''1''), (''code'', JStr ''1'')]], requests = 0\<rparr>"]
  by (simp add: get_product_def DBProductStore_getitem_def find_one_def)

subsection \<open>Numeric filter\<close>

lemma apply_comparison_operator_total:
  "\<exists>b. apply_comparison_operator v r op = Inr b"
  by (cases op) (auto simp: apply_comparison_operator_def split: option.splits)

lemma compare_raises_TypeError: "compare op v r = Inl e \<Longrightarrow> e = TypeError"
  by (cases op) (auto split: option.splits)



subsection \<open>Order of filter stages\<close>

lemma filter_items_no_error:
  "snd (filter_items cond xs None) = None \<Longrightarrow> \<forall>x\<in>set xs. \<exists>b. cond x = Inr b"
  by (induction xs) (auto split: sum.splits prod.splits)

lemma genexp_commute:
  assumes a: "\<forall>x\<in>set (fst it). \<exists>r. a x = Inr r"
      and b: "\<forall>x\<in>set (fst it). \<exists>r. b x = Inr r"
  shows "collect (genexp a (genexp b it)) = collect (genexp b (genexp a it))"
proof -
  have ab: "genexp a (genexp b it)
      = (filter (\<lambda>x. a x = Inr True) (filter (\<lambda>x. b x = Inr True) (fst it)), snd it)"
    using a by (simp add: genexp_total [OF b] genexp_total)
  have ba: "genexp b (genexp a it)
      = (filter (\<lambda>x. b x = Inr True) (filter (\<lambda>x. a x = Inr True) (fst it)), snd it)"
    using b by (simp add: genexp_total [OF a] genexp_total)
  have "filter (\<lambda>x. a x = Inr True) (filter (\<lambda>x. b x = Inr True) (fst it))
      = filter (\<lambda>x. b x = Inr True) (filter (\<lambda>x. a x = Inr True) (fst it))"
    by (simp add: conj_commute)
  with ab ba show ?thesis by simp
qed

lemma call_is_genexp:
  "call a it0 = Inr s \<Longrightarrow> \<exists>cond. \<forall>it. call a it = Inr (genexp cond it)"
proof (cases a)
  case (Number_field field ref dflt operator)
  assume "call a it0 = Inr s"
  with Number_field show ?thesis
    by (auto simp: filter_number_field_def split: sum.splits)
next
  case (By_modified_datetime from_t to_t)
  assume "call a it0 = Inr s"
  with By_modified_datetime show ?thesis
    by (cases from_t; cases to_t) (auto simp: filter_by_modified_datetime_def)
qed (auto simp: filter_by_country_tag_def filter_by_state_tag_def filter_text_field_def
       filter_nonempty_text_field_def filter_empty_text_field_def
       filter_nonempty_tag_field_def filter_empty_tag_field_def)

lemma call_collect_cond:
  assumes "call_collect a (xs, None) = Inr ys"
  shows "\<exists>cond. (\<forall>it. call a it = Inr (genexp cond it)) \<and> (\<forall>x\<in>set xs. \<exists>r. cond x = Inr r)"
proof -
  from assms obtain s where s: "call a (xs, None) = Inr s" and c: "collect s = Inr ys"
    by (auto simp: call_collect_def split: sum.splits)
  from call_is_genexp [OF s] obtain cond where cond: "\<forall>it. call a it = Inr (genexp cond it)"
    by blast
  with s have "s = genexp cond (xs, None)" by simp
  with c have "snd (filter_items cond xs None) = None"
    by (auto simp: collect_def genexp_def split: option.splits)
  from filter_items_no_error [OF this] cond show ?thesis by blast
qed

lemma never_raising_calls:
  "a = Text_field f v \<or> a = Nonempty_text_field f \<or> a = Empty_text_field f
     \<or> a = Nonempty_tag_field f \<or> a = Empty_tag_field f
     \<or> (a = Number_field f ref dflt operator \<and> get_from_string operator = Inr op)
   \<Longrightarrow> \<exists>ys. call_collect a (xs, None) = Inr ys"
  by (auto simp: call_collect_def collect_def genexp_total filter_text_field_def
        filter_nonempty_text_field_def filter_empty_text_field_def
        filter_nonempty_tag_field_def filter_empty_tag_field_def filter_number_field_def
        apply_comparison_operator_total)

text \<open>
  Claim C9, as stated, fails: on a record whose \<open>countries_tags\<close> is the number 5 and
  that has no \<open>lang\<close>, \<open>filter_nonempty_text_field\<close> then \<open>filter_by_country_tag\<close>
  collects the empty list, and \<open>filter_by_country_tag\<close> then \<open>filter_nonempty_text_field\<close>
  raises \<open>TypeError\<close>.
\<close>

theorem filter_order_counterexample:
  "call_call_collect (Nonempty_text_field ''lang'') (By_country_tag ''en:france'')
     ([[(''code'', JStr ''1''), (''countries_tags'', JNum 5)]], None) = Inr []
   \<and> call_call_collect (By_country_tag ''en:france'') (Nonempty_text_field ''lang'')
     ([[(''code'', JStr ''1''), (''countries_tags'', JNum 5)]], None) = Inl TypeError"
  by (simp add: call_call_collect_def call_collect_def collect_def genexp_def
        filter_by_country_tag_def filter_nonempty_text_field_def get_def get_default_def py_or_def)

text \<open>
  Claim C9, amended. For every source stream and every two filter methods of
  \<open>ProductStream\<close>, each of which alone filters the records of the source without raising,
  applying one then the other and collecting gives the same result in both orders: the
  same records in the same order, or the exception the source itself ends with.
\<close>

theorem filter_calls_commute:
  assumes "\<exists>ys. call_collect a (fst it, None) = Inr ys"
      and "\<exists>ys. call_collect b (fst it, None) = Inr ys"
  shows "call_call_collect a b it = call_call_collect b a it"
proof -
  from assms(1) call_collect_cond obtain ca where
    ca: "\<forall>it. call a it = Inr (genexp ca it)" "\<forall>x\<in>set (fst it). \<exists>r. ca x = Inr r"
    by blast
  from assms(2) call_collect_cond obtain cb where
    cb: "\<forall>it. call b it = Inr (genexp cb it)" "\<forall>x\<in>set (fst it). \<exists>r. cb x = Inr r"
    by blast
  have a: "call a s = Inr (genexp ca s)" for s using ca(1) by blast
  have b: "call b s = Inr (genexp cb s)" for s using cb(1) by blast
  have "call_call_collect a b it = collect (genexp cb (genexp ca it))"
    by (simp add: call_call_collect_def call_collect_def a b)
  moreover have "call_call_collect b a it = collect (genexp ca (genexp cb it))"
    by (simp add: call_call_collect_def call_collect_def a b)
  ultimately show ?thesis
    using genexp_commute [OF cb(2) ca(2)] by simp
qed

theorem filter_calls_commute_witness:
  "call_collect (By_country_tag ''en:france'')
     ([[(''code'', JStr ''1''), (''lang'', JStr ''fr''), (''countries_tags'', JList [JStr ''en:france''])],
       [(''code'', JStr ''2''), (''lang'', JStr ''fr''), (''countries_tags'', JList [JStr ''en:germany''])],
       [(''code'', JStr ''3''), (''countries_tags'', JList [JStr ''en:france''])]], None)
    = Inr [[(''code'', JStr ''1''), (''lang'', JStr ''fr''), (''countries_tags'', JList [JStr ''en:france''])],
           [(''code'', JStr ''3''), (''countries_tags'', JList [JStr ''en:france''])]]
   \<and> call_collect (Text_field ''lang'' ''fr'')
     ([[(''code'', JStr ''1''), (''lang'', JStr ''fr''), (''countries_tags'', JList [JStr ''en:france''])],
       [(''code'', JStr ''2''), (''lang'', JStr ''fr''), (''countries_tags'', JList [JStr ''en:germany''])],
       [(''code'', JStr ''3''), (''countries_tags'', JList [JStr ''en:france''])]], None)
    = Inr [[(''code'', JStr ''1''), (''lang'', JStr ''fr''), (''countries_tags'', JList [JStr ''en:france''])],
           [(''code'', JStr ''2''), (''lang'', JStr ''fr''), (''countries_tags'', JList [JStr ''en:germany''])]]
   \<and> call_call_collect (By_country_tag ''en:france'') (Text_field ''lang'' ''fr'')
     ([[(''code'', JStr ''1''), (''lang'', JStr ''fr''), (''countries_tags'', JList [JStr ''en:france''])],
       [(''code'', JStr ''2''), (''lang'', JStr ''fr''), (''countries_tags'', JList [JStr ''en:germany''])],
       [(''code'', JStr ''3''), (''countries_tags'', JList [JStr ''en:france''])]], None)
    = Inr [[(''code'', JStr ''1''), (''lang'', JStr ''fr''), (''countries_tags'', JList [JStr ''en:france''])]]
   \<and> call_call_collect (Text_field ''lang'' ''fr'') (By_country_tag ''en:france'')
     ([[(''code'', JStr ''1''), (''lang'', JStr ''fr''), (''countries_tags'', JList [JStr ''en:france''])],
       [(''code'', JStr ''2''), (''lang'', JStr ''fr''), (''countries_tags'', JList [JStr ''en:germany''])],
       [(''code'', JStr ''3''), (''countries_tags'', JList [JStr ''en:france''])]], None)
    = Inr [[(''code'', JStr ''1''), (''lang'', JStr ''fr''), (''countries_tags'', JList [JStr ''en:france''])]]"
  using filter_calls_commute
    [of "By_country_tag ''en:france''"
        "([[(''code'', JStr ''1''), (''lang'', JStr ''fr''), (''countries_tags'', JList [JStr ''en:france''])],
           [(''code'', JStr ''2''), (''lang'', JStr ''fr''), (''countries_tags'', JList [JStr ''en:germany''])],
           [(''code'', JStr ''3''), (''countries_tags'', JList [JStr ''en:france''])]], None)"
        "Text_field ''lang'' ''fr''"]
  by (simp add: call_call_collect_def call_collect_def collect_def genexp_def
        filter_by_country_tag_def filter_text_field_def get_def get_default_def py_or_def)

subsection \<open>Snapshot store\<close>

lemma store_products_lookup:
  "store_products ps st = Inr st' \<Longrightarrow>
   map_of st' k =
     (case filter (\<lambda>p. truthy (barcode p) \<and> dict_key (barcode p) = Inr k) ps of
        [] \<Rightarrow> map_of st k
      | q # qs \<Rightarrow> Some (last (q # qs)))"
proof (induction ps arbitrary: st)
  case Nil
  then show ?case by simp
next
  case (Cons p ps)
  show ?case
  proof (cases "truthy (barcode p)")
    case False
    with Cons show ?thesis by simp
  next
    case True
    with Cons.prems obtain k' where k': "dict_key (barcode p) = Inr k'"
      and rest: "store_products ps (AList.update k' p st) = Inr st'"
      by (auto split: sum.splits)
    from Cons.IH [OF rest] True k' show ?thesis
      by (auto simp: update_conv' split: list.splits)
  qed
qed

lemma store_products_keys:
  "store_products ps st = Inr st' \<Longrightarrow>
   fst ` set st' =
     fst ` set st \<union> {k. \<exists>p\<in>set ps. truthy (barcode p) \<and> dict_key (barcode p) = Inr k}"
proof (induction ps arbitrary: st)
  case Nil
  then show ?case by simp
next
  case (Cons p ps)
  show ?case
  proof (cases "truthy (barcode p)")
    case False
    with Cons show ?thesis by auto
  next
    case True
    with Cons.prems obtain k' where k': "dict_key (barcode p) = Inr k'"
      and rest: "store_products ps (AList.update k' p st) = Inr st'"
      by (auto split: sum.splits)
    from Cons.IH [OF rest] True k' show ?thesis
      by (auto simp: dom_update)
  qed
qed

lemma store_products_distinct:
  "store_products ps st = Inr st' \<Longrightarrow> distinct (map fst st) \<Longrightarrow> distinct (map fst st')"
proof (induction ps arbitrary: st)
  case Nil
  then show ?case by simp
next
  case (Cons p ps)
  then show ?case
    by (auto split: if_splits sum.splits intro: distinct_update)
qed

lemma map_items_complete:
  "map_items f xs e = (ys, None) \<Longrightarrow> e = None \<and> map f xs = map Inr ys"
  by (induction xs arbitrary: ys) (auto split: sum.splits prod.splits)

text \<open>
  Claim C10. When \<open>load_from_path\<close> returns a store, every record of the file was
  projected to a \<open>Product\<close>, in file order; looking an identifier up gives the last
  of the products that carry this identifier (none if no product does), and the size of
  the store is the number of distinct identifiers among the products with a true
  \<open>barcode\<close>: each is counted once.
\<close>

theorem load_from_path_last_wins:
  assumes "load_from_path path projection = Inr st"
  shows "\<exists>products.
           iter_product projection path = (products, None)
         \<and> map (\<lambda>item. case project_item projection item of
                          Inl e \<Rightarrow> Inl e
                        | Inr projected_item \<Rightarrow> Product_init projected_item) (fst path)
             = map Inr products
         \<and> (\<forall>k. MemoryProductStore_getitem st k =
                 (case dict_key k of
                    Inl e \<Rightarrow> Inl e
                  | Inr k' \<Rightarrow>
                      Inr (case filter (\<lambda>p. truthy (barcode p) \<and> dict_key (barcode p) = Inr k')
                                  products of
                             [] \<Rightarrow> None
                           | q # qs \<Rightarrow> Some (last (q # qs)))))
         \<and> MemoryProductStore_len st
             = card {k. \<exists>p\<in>set products. truthy (barcode p) \<and> dict_key (barcode p) = Inr k}"
proof -
  obtain products e where it: "iter_product projection path = (products, e)"
    by (cases "iter_product projection path")
  from assms it have sp: "store_products products [] = Inr st" and e: "e = None"
    by (auto simp: load_from_path_def Let_def split: if_splits sum.splits option.splits)
  have m: "map (\<lambda>item. case project_item projection item of
                          Inl e \<Rightarrow> Inl e
                        | Inr projected_item \<Rightarrow> Product_init projected_item) (fst path)
             = map Inr products"
    using it e map_items_complete unfolding iter_product_def by blast
  have look: "map_of st k' =
      (case filter (\<lambda>p. truthy (barcode p) \<and> dict_key (barcode p) = Inr k') products of
         [] \<Rightarrow> None | q # qs \<Rightarrow> Some (last (q # qs)))" for k'
    using store_products_lookup [OF sp, of k'] by (simp split: list.splits)
  have d: "distinct (map fst st)"
    using store_products_distinct [OF sp] by simp
  have keys: "fst ` set st
      = {k. \<exists>p\<in>set products. truthy (barcode p) \<and> dict_key (barcode p) = Inr k}"
    using store_products_keys [OF sp] by simp
  have "length st = card (fst ` set st)"
    using d distinct_card [of "map fst st"] by simp
  with keys have len: "MemoryProductStore_len st
      = card {k. \<exists>p\<in>set products. truthy (barcode p) \<and> dict_key (barcode p) = Inr k}"
    by (simp add: MemoryProductStore_len_def)
  have get: "MemoryProductStore_getitem st k =
                 (case dict_key k of
                    Inl e \<Rightarrow> Inl e
                  | Inr k' \<Rightarrow>
                      Inr (case filter (\<lambda>p. truthy (barcode p) \<and> dict_key (barcode p) = Inr k')
                                  products of
                             [] \<Rightarrow> None
                           | q # qs \<Rightarrow> Some (last (q # qs))))" for k
    by (simp add: MemoryProductStore_getitem_def look split: sum.splits)
  from it e m get len show ?thesis by blast
qed

theorem load_from_path_last_wins_witness:
  "map_sum id
     (\<lambda>st. (map_sum id (map_option lang) (MemoryProductStore_getitem st (JStr ''1'')),
            MemoryProductStore_len st))
     (load_from_path
       ([[(''code'', JStr ''1''), (''lang'', JStr ''fr'')],
        [(''code'', JStr ''2'')],
        [(''lang'', JStr ''de'')],
        [(''code'', JStr ''1''), (''lang'', JStr ''en'')]], None) None)
   = Inr (Inr (Some (JStr ''en'')), 2)"
proof -
  have ld: "load_from_path
       ([[(''code'', JStr ''1''), (''lang'', JStr ''fr'')],
        [(''code'', JStr ''2'')],
        [(''lang'', JStr ''de'')],
        [(''code'', JStr ''1''), (''lang'', JStr ''en'')]], None) None
    = Inr [(JStr ''1'',
        \<lparr>barcode = JStr ''1'', countries_tags = JList [], categories_tags = JList [],
          emb_codes_tags = JList [], labels_tags = JList [], quantity = JNull,
          expiration_date = JNull, brands_tags = JList [], stores_tags = JList [],
          unique_scans_n = JNum 0, images = JObj [], image_ids = JList [],
          packagings = JList [], lang = JStr ''en'', ingredients_text = JNull,
          nutriments = JObj []\<rparr>),
       (JStr ''2'',
        \<lparr>barcode = JStr ''2'', countries_tags = JList [], categories_tags = JList [],
          emb_codes_tags = JList [], labels_tags = JList [], quantity = JNull,
          expiration_date = JNull, brands_tags = JList [], stores_tags = JList [],
          unique_scans_n = JNum 0, images = JObj [], image_ids = JList [],
          packagings = JList [], lang = JNull, ingredients_text = JNull,
          nutriments = JObj []\<rparr>)]"
    by code_simp
  show ?thesis
    using load_from_path_last_wins [OF ld]
    by (simp add: ld MemoryProductStore_getitem_def MemoryProductStore_len_def)
qed

end
